theory Spec2Isabelle
  imports Complex_Main "HOL-Library.AList"
begin

section \<open>Python values\<close>

text \<open>
  The module \<open>object_detection_service.py\<close> wraps a YOLO backend. Python floats are
  modelled by the real numbers they denote, Python ints by \<open>int\<close>, and a Python dict by an
  association list in insertion order. Only exceptions derived from \<open>Exception\<close> are
  modelled; they are the ones the \<open>except Exception\<close> clause of \<open>detect\<close> catches.
\<close>

datatype exn = ImportError | KeyError | IndexError | TypeError | BackendError string

datatype pyval =
    PyStr string
  | PyInt int
  | PyFloat real
  | PyFloats "real list"
  | PyPoints "(real \<times> real) list"

type_synonym pydict = "(string \<times> pyval) list"

text \<open>
  The builtin \<open>round(x, n)\<close> on a float rounds the value to \<open>n\<close> decimals, ties going
  to the even neighbour.
\<close>

definition round_half_even :: "real \<Rightarrow> int" where
  "round_half_even x =
     (let f = \<lfloor>x\<rfloor>; d = x - of_int f in
      if d < 1 / 2 then f
      else if 1 / 2 < d then f + 1
      else if even f then f else f + 1)"

definition py_round :: "real \<Rightarrow> nat \<Rightarrow> real" where
  "py_round x n = of_int (round_half_even (x * 10 ^ n)) / 10 ^ n"

section \<open>The backend\<close>

text \<open>
  A frame is a \<open>numpy\<close> array of shape height x width x 3; \<open>np_zeros\<close> is
  \<open>np.zeros(shape, dtype=np.uint8)\<close>.
\<close>

datatype frame = Frame (shape: "nat \<times> nat \<times> nat") (pixel: "nat \<Rightarrow> nat \<Rightarrow> nat \<Rightarrow> nat")

definition np_zeros :: "nat \<times> nat \<times> nat \<Rightarrow> frame" where
  "np_zeros sh = Frame sh (\<lambda>_ _ _. 0)"

text \<open>
  What the backend returns for one frame. A box carries \<open>box.xyxy[0].tolist()\<close>,
  \<open>float(box.conf[0])\<close> and \<open>int(box.cls[0])\<close>; \<open>masks.xy\<close> is a list with one
  entry per object, each entry an array of points or \<open>None\<close>; \<open>result.masks\<close> is
  \<open>None\<close> for a model without segmentation.
\<close>

record raw_box =
  xyxy :: "real list"
  conf :: real
  cls :: int

record raw_masks =
  xy :: "(real \<times> real) list option list"

record raw_result =
  boxes :: "raw_box list"
  masks :: "raw_masks option"

text \<open>The loaded model: a callable handle with its table \<open>names\<close> of class labels.\<close>

datatype model = Model (model_id: nat) (names: "(int \<times> string) list")

text \<open>
  The backend and the clock are outside the module. They act on a world \<open>'w\<close> that the
  service cannot see: \<open>YOLO\<close> constructs a model from a path, \<open>call\<close> runs a model on a
  frame (with the keyword \<open>conf\<close> when it is given), \<open>perf_counter\<close> reads the clock.
  Each returns the new world; a world that comes back unchanged means that none of them ran.
  \<open>YOLO_AVAILABLE\<close> is the module's flag, set when \<open>ultralytics\<close> was imported.
\<close>

record 'w backend =
  YOLO_AVAILABLE :: bool
  YOLO :: "string \<Rightarrow> 'w \<Rightarrow> (exn + model) \<times> 'w"
  call :: "model \<Rightarrow> frame \<Rightarrow> real option \<Rightarrow> 'w \<Rightarrow> (exn + raw_result list) \<times> 'w"
  perf_counter :: "'w \<Rightarrow> real \<times> 'w"

section \<open>The service\<close>

text \<open>
  The fields of \<open>ObjectDetectionService\<close>. \<open>processing_lock\<close> is the state of
  \<open>self._processing_lock\<close>: \<open>True\<close> while the lock is held, as it is for the other
  tasks while a call of \<open>process_frame\<close> waits for the backend.
\<close>

record service =
  model_path :: string
  confidence :: real
  model :: "model option"
  is_initialized :: bool
  current_detections :: "pydict list"
  processing_lock :: bool
  last_inference_time :: real
  total_inferences :: int
  total_inference_time :: real

text \<open>\<open>__init__\<close>: raises \<open>ImportError\<close> when the backend is missing.\<close>

definition ObjectDetectionService :: "'w backend \<Rightarrow> string \<Rightarrow> real \<Rightarrow> exn + service" where
  "ObjectDetectionService B path c =
     (if \<not> YOLO_AVAILABLE B then Inl ImportError
      else Inr \<lparr> model_path = path,
                 confidence = c,
                 model = None,
                 is_initialized = False,
                 current_detections = [],
                 processing_lock = False,
                 last_inference_time = 0,
                 total_inferences = 0,
                 total_inference_time = 0 \<rparr>)"

text \<open>
  \<open>initialize\<close>: an operation returns what it raised or returned, the service as it left
  it, and the world. The assignment to \<open>self.model\<close> stays when the warm-up raises.
\<close>

definition initialize :: "'w backend \<Rightarrow> service \<Rightarrow> 'w \<Rightarrow> (exn + unit) \<times> service \<times> 'w" where
  "initialize B s w =
     (if is_initialized s then (Inr (), s, w)
      else if \<not> YOLO_AVAILABLE B then (Inr (), s, w)
      else
        (case YOLO B (model_path s) w of
           (Inl e, w1) \<Rightarrow> (Inl e, s, w1)
         | (Inr m, w1) \<Rightarrow>
             (let s1 = s\<lparr>model := Some m\<rparr> in
              case call B m (np_zeros (640, 640, 3)) None w1 of
                (Inl e, w2) \<Rightarrow> (Inl e, s1, w2)
              | (Inr _, w2) \<Rightarrow> (Inr (), s1\<lparr>is_initialized := True\<rparr>, w2))))"

subsection \<open>Decoding\<close>

text \<open>
  The body of the loop over \<open>range(len(boxes))\<close> for the box at index \<open>i\<close>. The lookup
  \<open>self.model.names[cls]\<close> raises \<open>KeyError\<close> for a class that the table does not have,
  and \<open>masks.xy[i]\<close> raises \<open>IndexError\<close> beyond the end of the list.
\<close>

definition decode_box :: "model \<Rightarrow> raw_masks option \<Rightarrow> nat \<Rightarrow> raw_box \<Rightarrow> exn + pydict" where
  "decode_box m mks i b =
     (case map_of (names m) (cls b) of
        None \<Rightarrow> Inl KeyError
      | Some label \<Rightarrow>
          (let det = [(''box'', PyFloats (map (\<lambda>c. py_round c 1) (xyxy b))),
                      (''label'', PyStr label),
                      (''class_id'', PyInt (cls b)),
                      (''conf'', PyFloat (py_round (conf b) 2))]
           in case mks of
                None \<Rightarrow> Inr det
              | Some mk \<Rightarrow>
                  (if i < length (xy mk) then
                     (case xy mk ! i of
                        None \<Rightarrow> Inr det
                      | Some segments \<Rightarrow>
                          (if 0 < length segments
                           then Inr (AList.update ''mask'' (PyPoints segments) det)
                           else Inr det))
                   else Inl IndexError)))"

text \<open>The loop, from index \<open>i\<close> on: the first exception ends it.\<close>

fun decode_boxes :: "model \<Rightarrow> raw_masks option \<Rightarrow> nat \<Rightarrow> raw_box list \<Rightarrow> exn + pydict list" where
  "decode_boxes m mks i [] = Inr []"
| "decode_boxes m mks i (b # bs) =
     (case decode_box m mks i b of
        Inl e \<Rightarrow> Inl e
      | Inr det \<Rightarrow>
          (case decode_boxes m mks (Suc i) bs of
             Inl e \<Rightarrow> Inl e
           | Inr dets \<Rightarrow> Inr (det # dets)))"

text \<open>Only \<open>results[0]\<close> is decoded; an empty \<open>results\<close> gives no detection.\<close>

definition decode :: "model \<Rightarrow> raw_result list \<Rightarrow> exn + pydict list" where
  "decode m results =
     (case results of
        [] \<Rightarrow> Inr []
      | result # _ \<Rightarrow> decode_boxes m (masks result) 0 (boxes result))"

subsection \<open>Detection\<close>

text \<open>
  The \<open>try\<close> block of \<open>detect\<close> up to \<open>inference_time\<close>: it ends in an exception, or
  in the detections and the measured time. A \<open>self.model\<close> that is \<open>None\<close> is not callable.
\<close>

definition detect_try ::
  "'w backend \<Rightarrow> service \<Rightarrow> frame \<Rightarrow> 'w \<Rightarrow> (exn + pydict list \<times> real) \<times> 'w" where
  "detect_try B s img w =
     (case perf_counter B w of
        (start_time, w1) \<Rightarrow>
          (case model s of
             None \<Rightarrow> (Inl TypeError, w1)
           | Some m \<Rightarrow>
               (case call B m img (Some (confidence s)) w1 of
                  (Inl e, w2) \<Rightarrow> (Inl e, w2)
                | (Inr results, w2) \<Rightarrow>
                    (case decode m results of
                       Inl e \<Rightarrow> (Inl e, w2)
                     | Inr detections \<Rightarrow>
                         (case perf_counter B w2 of
                            (end_time, w3) \<Rightarrow>
                              (Inr (detections, end_time - start_time), w3))))))"

text \<open>The first two lines of \<open>detect\<close>: \<open>if not self.is_initialized: self.initialize()\<close>.\<close>

definition lazy_initialize :: "'w backend \<Rightarrow> service \<Rightarrow> 'w \<Rightarrow> (exn + unit) \<times> service \<times> 'w" where
  "lazy_initialize B s w = (if \<not> is_initialized s then initialize B s w else (Inr (), s, w))"

text \<open>
  \<open>detect\<close>: an exception of \<open>initialize\<close> is raised outside the \<open>try\<close> and leaves
  \<open>detect\<close>; one of the \<open>try\<close> block is caught and \<open>[]\<close> is returned.
\<close>

definition detect ::
  "'w backend \<Rightarrow> service \<Rightarrow> frame \<Rightarrow> 'w \<Rightarrow> (exn + pydict list) \<times> service \<times> 'w" where
  "detect B s img w =
     (case lazy_initialize B s w of
        (Inl e, s0, w0) \<Rightarrow> (Inl e, s0, w0)
      | (Inr _, s0, w0) \<Rightarrow>
          (case detect_try B s0 img w0 of
             (Inl e, w1) \<Rightarrow> (Inr [], s0, w1)
           | (Inr (detections, inference_time), w1) \<Rightarrow>
               (Inr detections,
                s0\<lparr>last_inference_time := inference_time,
                   total_inferences := total_inferences s0 + 1,
                   total_inference_time := total_inference_time s0 + inference_time\<rparr>,
                w1)))"

text \<open>
  \<open>process_frame\<close>: returns at once when the lock is held; otherwise holds the lock around
  \<open>detect\<close>, and \<open>async with\<close> releases it also when \<open>detect\<close> raises.
\<close>

definition process_frame ::
  "'w backend \<Rightarrow> service \<Rightarrow> frame \<Rightarrow> 'w \<Rightarrow> (exn + unit) \<times> service \<times> 'w" where
  "process_frame B s img w =
     (if processing_lock s then (Inr (), s, w)
      else
        (case detect B (s\<lparr>processing_lock := True\<rparr>) img w of
           (Inl e, s1, w1) \<Rightarrow> (Inl e, s1\<lparr>processing_lock := False\<rparr>, w1)
         | (Inr detections, s1, w1) \<Rightarrow>
             (Inr (), s1\<lparr>current_detections := detections, processing_lock := False\<rparr>, w1)))"

definition get_current_detections :: "service \<Rightarrow> pydict list" where
  "get_current_detections s = current_detections s"

definition get_metrics :: "service \<Rightarrow> pydict" where
  "get_metrics s =
     (let avg_latency =
            (if 0 < total_inferences s
             then total_inference_time s / of_int (total_inferences s) else 0)
      in [(''last_latency_ms'', PyFloat (last_inference_time s * 1000)),
          (''avg_latency_ms'', PyFloat (avg_latency * 1000)),
          (''total_detections'', PyInt (total_inferences s))])"

subsection \<open>Sequences of calls\<close>

text \<open>
  A caller makes one call after the other, each running to its end, and goes on after a
  call that raised. \<open>exec\<close> is the effect of one call on the service and the world.
\<close>

datatype op =
    Initialize
  | Detect frame
  | ProcessFrame frame
  | GetCurrentDetections
  | GetMetrics

fun exec :: "'w backend \<Rightarrow> op \<Rightarrow> service \<times> 'w \<Rightarrow> service \<times> 'w" where
  "exec B Initialize (s, w) = snd (initialize B s w)"
| "exec B (Detect img) (s, w) = snd (detect B s img w)"
| "exec B (ProcessFrame img) (s, w) = snd (process_frame B s img w)"
| "exec B GetCurrentDetections (s, w) = (s, w)"
| "exec B GetMetrics (s, w) = (s, w)"

fun run :: "'w backend \<Rightarrow> op list \<Rightarrow> service \<times> 'w \<Rightarrow> service \<times> 'w" where
  "run B [] sw = sw"
| "run B (c # cs) sw = run B cs (exec B c sw)"

text \<open>
  The time that a call of \<open>detect\<close> records: \<open>Some t\<close> when the \<open>try\<close> block reaches the
  update of the metrics with \<open>inference_time = t\<close>, \<open>None\<close> when the call raises or
  catches an exception.
\<close>

definition detect_recorded :: "'w backend \<Rightarrow> service \<Rightarrow> frame \<Rightarrow> 'w \<Rightarrow> real option" where
  "detect_recorded B s img w =
     (case lazy_initialize B s w of
        (Inl e, s0, w0) \<Rightarrow> None
      | (Inr _, s0, w0) \<Rightarrow>
          (case fst (detect_try B s0 img w0) of
             Inl e \<Rightarrow> None
           | Inr (detections, inference_time) \<Rightarrow> Some inference_time))"

fun recorded :: "'w backend \<Rightarrow> op \<Rightarrow> service \<times> 'w \<Rightarrow> real list" where
  "recorded B (Detect img) (s, w) =
     (case detect_recorded B s img w of None \<Rightarrow> [] | Some t \<Rightarrow> [t])"
| "recorded B (ProcessFrame img) (s, w) =
     (if processing_lock s then []
      else case detect_recorded B (s\<lparr>processing_lock := True\<rparr>) img w of
             None \<Rightarrow> [] | Some t \<Rightarrow> [t])"
| "recorded B _ (s, w) = []"

fun latencies :: "'w backend \<Rightarrow> op list \<Rightarrow> service \<times> 'w \<Rightarrow> real list" where
  "latencies B [] sw = []"
| "latencies B (c # cs) sw = recorded B c sw @ latencies B cs (exec B c sw)"

section \<open>Specification predicates and example data\<close>

text \<open>
  \<open>rounded_to n x y\<close>: \<open>y\<close> has at most \<open>n\<close> decimals and no number with \<open>n\<close> decimals is
  nearer to \<open>x\<close>.
\<close>

definition rounded_to :: "nat \<Rightarrow> real \<Rightarrow> real \<Rightarrow> bool" where
  "rounded_to n x y \<longleftrightarrow> y * 10 ^ n = of_int \<lfloor>y * 10 ^ n\<rfloor> \<and> \<bar>y - x\<bar> * (2 * 10 ^ n) \<le> 1"

text \<open>
  The segmentation that the backend provides for the object at index \<open>j\<close> of a result: its
  polygon when \<open>masks\<close> is there and the entry is a non-empty array.
\<close>

definition segmentation :: "raw_result \<Rightarrow> nat \<Rightarrow> (real \<times> real) list option" where
  "segmentation r j =
     (case masks r of
        None \<Rightarrow> None
      | Some mk \<Rightarrow>
          (if j < length (xy mk) then
             (case xy mk ! j of
                None \<Rightarrow> None
              | Some seg \<Rightarrow> (if seg = [] then None else Some seg))
           else None))"

text \<open>The invariant of readiness: an initialized service holds a model.\<close>

definition ready_inv :: "service \<Rightarrow> bool" where
  "ready_inv s \<longleftrightarrow> (is_initialized s \<longrightarrow> model s \<noteq> None)"

text \<open>
  \<open>loaded_and_warmed B s w s'\<close>: from service \<open>s\<close> and world \<open>w\<close>, the construction of
  the model and then the warm-up inference on the blank 640 x 640 frame both returned, and
  \<open>s'\<close> holds the model that was constructed.
\<close>

definition loaded_and_warmed :: "'w backend \<Rightarrow> service \<Rightarrow> 'w \<Rightarrow> service \<Rightarrow> bool" where
  "loaded_and_warmed B s w s' \<longleftrightarrow>
     (\<exists>m w1 res w2. YOLO B (model_path s) w = (Inr m, w1) \<and>
        call B m (np_zeros (640, 640, 3)) None w1 = (Inr res, w2) \<and> model s' = Some m)"

text \<open>
  A backend for the examples. Its world counts the calls made to it and to the clock, and
  the clock shows the square of that count. It has no model for the empty path, raises on a
  frame of height 0, and reports a class without a label on a frame of height 1.
\<close>

definition example_model :: model where
  "example_model = Model 0 [(0, ''person''), (2, ''car'')]"

definition example_result :: raw_result where
  "example_result =
     \<lparr> boxes = [\<lparr> xyxy = [10.249, 20.251, 30.0, 40.0], conf = 0.8675, cls = 0 \<rparr>,
                \<lparr> xyxy = [1.0, 2.0, 3.0, 4.0], conf = 0.40, cls = 2 \<rparr>],
       masks = Some \<lparr> xy = [Some [(1, 2), (3, 4), (5, 6)], Some []] \<rparr> \<rparr>"

definition unlabelled_result :: raw_result where
  "unlabelled_result =
     \<lparr> boxes = [\<lparr> xyxy = [1.0, 2.0, 3.0, 4.0], conf = 0.5, cls = 7 \<rparr>], masks = None \<rparr>"

definition example_backend :: "nat backend" where
  "example_backend =
     \<lparr> YOLO_AVAILABLE = True,
       YOLO = (\<lambda>path w. if path = [] then (Inl (BackendError ''no such model''), Suc w)
                         else (Inr example_model, Suc w)),
       call = (\<lambda>m img c w.
                 if fst (shape img) = 0 then (Inl (BackendError ''empty frame''), Suc w)
                 else if fst (shape img) = 1 then (Inr [unlabelled_result], Suc w)
                 else (Inr [example_result], Suc w)),
       perf_counter = (\<lambda>w. (real (w * w), Suc w)) \<rparr>"

definition missing_backend :: "nat backend" where
  "missing_backend = example_backend\<lparr>YOLO_AVAILABLE := False\<rparr>"

definition example_frame :: "nat \<Rightarrow> frame" where
  "example_frame h = Frame (h, 4, 3) (\<lambda>_ _ _. 128)"

definition example_detection :: pydict where
  "example_detection =
     [(''box'', PyFloats [1, 2, 3, 4]), (''label'', PyStr ''car''),
      (''class_id'', PyInt 2), (''conf'', PyFloat 0.4)]"

text \<open>A service in the Ready state, with one stored detection and one recorded inference.\<close>

definition ready_service :: service where
  "ready_service =
     \<lparr> model_path = ''yolo26n-seg.pt'',
       confidence = 0.25,
       model = Some example_model,
       is_initialized = True,
       current_detections = [example_detection],
       processing_lock = False,
       last_inference_time = 2,
       total_inferences = 1,
       total_inference_time = 2 \<rparr>"

text \<open>The service that the constructor returns for the default arguments.\<close>

definition fresh_service :: service where
  "fresh_service =
     \<lparr> model_path = ''yolo26n-seg.pt'',
       confidence = 0.25,
       model = None,
       is_initialized = False,
       current_detections = [],
       processing_lock = False,
       last_inference_time = 0,
       total_inferences = 0,
       total_inference_time = 0 \<rparr>"

section \<open>Auxiliary facts\<close>

text \<open>\<open>py_round\<close> rounds to the nearest number with \<open>n\<close> decimals.\<close>

lemma round_half_even_near: "\<bar>of_int (round_half_even x) - x\<bar> \<le> 1 / 2"
  unfolding round_half_even_def Let_def by (auto simp: abs_if) linarith+

lemma py_round_rounded_to: "rounded_to n x (py_round x n)"
proof -
  have p: "(0::real) < 10 ^ n" by simp
  let ?k = "round_half_even (x * 10 ^ n)"
  have a: "py_round x n * 10 ^ n = of_int ?k"
    by (simp add: py_round_def)
  have "\<bar>py_round x n - x\<bar> * 10 ^ n = \<bar>(py_round x n - x) * 10 ^ n\<bar>"
    by (simp add: abs_mult)
  also have "\<dots> = \<bar>py_round x n * 10 ^ n - x * 10 ^ n\<bar>"
    by (simp only: left_diff_distrib)
  also have "\<dots> \<le> 1 / 2" unfolding a by (rule round_half_even_near)
  finally have "\<bar>py_round x n - x\<bar> * 10 ^ n \<le> 1 / 2" .
  then have b: "\<bar>py_round x n - x\<bar> * (2 * 10 ^ n) \<le> 1" by simp
  show ?thesis unfolding rounded_to_def using a b by simp
qed

text \<open>The loop decodes the boxes one by one, in their order.\<close>

lemma decode_boxes_nth:
  "decode_boxes m mks i bs = Inr ds \<Longrightarrow>
     length ds = length bs \<and> (\<forall>j<length bs. decode_box m mks (i + j) (bs ! j) = Inr (ds ! j))"
proof (induction bs arbitrary: i ds)
  case Nil
  then show ?case by simp
next
  case (Cons b bs)
  from Cons.prems obtain d ds' where
    d: "decode_box m mks i b = Inr d" and ds': "decode_boxes m mks (Suc i) bs = Inr ds'"
    and eq: "ds = d # ds'"
    by (auto split: sum.splits)
  from Cons.IH [OF ds'] have len: "length ds' = length bs"
    and nth: "\<And>j. j < length bs \<Longrightarrow> decode_box m mks (Suc i + j) (bs ! j) = Inr (ds' ! j)"
    by auto
  show ?case
  proof (intro conjI allI impI)
    show "length ds = length (b # bs)" using eq len by simp
  next
    fix j assume "j < length (b # bs)"
    then show "decode_box m mks (i + j) ((b # bs) ! j) = Inr (ds ! j)"
      using d eq nth by (cases j) auto
  qed
qed

lemma decode_box_Inr:
  "decode_box m (masks r) j b = Inr d \<Longrightarrow>
     \<exists>label. map_of (names m) (cls b) = Some label \<and>
       d = [(''box'', PyFloats (map (\<lambda>c. py_round c 1) (xyxy b))),
            (''label'', PyStr label),
            (''class_id'', PyInt (cls b)),
            (''conf'', PyFloat (py_round (conf b) 2))]
           @ (case segmentation r j of
                None \<Rightarrow> [] | Some seg \<Rightarrow> [(''mask'', PyPoints seg)])"
  by (auto simp: decode_box_def segmentation_def Let_def split: option.splits if_splits)

text \<open>What \<open>initialize\<close> and \<open>detect\<close> leave alone, and what they do to readiness.\<close>

lemma initialize_frame:
  assumes "initialize B s w = (r, s', w')"
  shows "model_path s' = model_path s" "confidence s' = confidence s"
    "current_detections s' = current_detections s" "processing_lock s' = processing_lock s"
    "last_inference_time s' = last_inference_time s" "total_inferences s' = total_inferences s"
    "total_inference_time s' = total_inference_time s"
  using assms
  by (auto simp: initialize_def Let_def split: if_splits prod.splits sum.splits)

lemma initialize_ready:
  assumes "initialize B s w = (r, s', w')"
  shows "ready_inv s \<longrightarrow> ready_inv s'" "is_initialized s \<longrightarrow> is_initialized s'"
    "\<not> is_initialized s \<and> is_initialized s' \<longrightarrow> loaded_and_warmed B s w s'"
  using assms
  by (auto simp: initialize_def ready_inv_def loaded_and_warmed_def Let_def
      split: if_splits prod.splits sum.splits)

lemma lazy_initialize_frame:
  assumes "lazy_initialize B s w = (r, s', w')"
  shows "model_path s' = model_path s" "confidence s' = confidence s"
    "current_detections s' = current_detections s" "processing_lock s' = processing_lock s"
    "last_inference_time s' = last_inference_time s" "total_inferences s' = total_inferences s"
    "total_inference_time s' = total_inference_time s"
  using assms initialize_frame [of B s w r s' w']
  by (auto simp: lazy_initialize_def split: if_splits)

lemma lazy_initialize_ready:
  assumes "lazy_initialize B s w = (r, s', w')"
  shows "ready_inv s \<longrightarrow> ready_inv s'" "is_initialized s \<longrightarrow> is_initialized s'"
    "\<not> is_initialized s \<and> is_initialized s' \<longrightarrow> loaded_and_warmed B s w s'"
  using assms initialize_ready [of B s w r s' w']
  by (auto simp: lazy_initialize_def split: if_splits)

lemma detect_cases:
  assumes "detect B s img w = (r, s', w')"
  obtains (raised) e where "lazy_initialize B s w = (Inl e, s', w')" "r = Inl e"
  | (caught) e s0 w0 where "lazy_initialize B s w = (Inr (), s0, w0)"
      "detect_try B s0 img w0 = (Inl e, w')" "r = Inr []" "s' = s0"
  | (returned) s0 w0 detections t where "lazy_initialize B s w = (Inr (), s0, w0)"
      "detect_try B s0 img w0 = (Inr (detections, t), w')" "r = Inr detections"
      "s' = s0\<lparr>last_inference_time := t, total_inferences := total_inferences s0 + 1,
               total_inference_time := total_inference_time s0 + t\<rparr>"
  using assms
  by (auto simp: detect_def split: prod.splits sum.splits)

lemma detect_frame:
  assumes "detect B s img w = (r, s', w')"
  shows "model_path s' = model_path s" "confidence s' = confidence s"
    "current_detections s' = current_detections s" "processing_lock s' = processing_lock s"
  using assms
  by (cases rule: detect_cases; simp add: lazy_initialize_frame)+

lemma detect_ready:
  assumes "detect B s img w = (r, s', w')"
  shows "ready_inv s \<longrightarrow> ready_inv s'" "is_initialized s \<longrightarrow> is_initialized s'"
    "\<not> is_initialized s \<and> is_initialized s' \<longrightarrow> loaded_and_warmed B s w s'"
  using assms
  by (cases rule: detect_cases;
      insert lazy_initialize_ready; fastforce simp: ready_inv_def loaded_and_warmed_def)+

lemma process_frame_cases:
  assumes "process_frame B s img w = (r, s', w')"
  obtains (dropped) "processing_lock s" "r = Inr ()" "s' = s" "w' = w"
  | (raised) e s1 where "\<not> processing_lock s"
      "detect B (s\<lparr>processing_lock := True\<rparr>) img w = (Inl e, s1, w')"
      "r = Inl e" "s' = s1\<lparr>processing_lock := False\<rparr>"
  | (stored) detections s1 where "\<not> processing_lock s"
      "detect B (s\<lparr>processing_lock := True\<rparr>) img w = (Inr detections, s1, w')"
      "r = Inr ()" "s' = s1\<lparr>current_detections := detections, processing_lock := False\<rparr>"
  using assms
  by (auto simp: process_frame_def split: if_splits prod.splits sum.splits)

lemma process_frame_ready:
  assumes "process_frame B s img w = (r, s', w')"
  shows "ready_inv s \<longrightarrow> ready_inv s'" "is_initialized s \<longrightarrow> is_initialized s'"
    "\<not> is_initialized s \<and> is_initialized s' \<longrightarrow> loaded_and_warmed B s w s'"
  using assms
  by (cases rule: process_frame_cases;
      insert detect_ready [of B "s\<lparr>processing_lock := True\<rparr>" img w];
      fastforce simp: ready_inv_def loaded_and_warmed_def)+

lemma exec_ready:
  assumes "exec B c (s, w) = (s', w')"
  shows "ready_inv s \<longrightarrow> ready_inv s'" "is_initialized s \<longrightarrow> is_initialized s'"
    "\<not> is_initialized s \<and> is_initialized s' \<longrightarrow> loaded_and_warmed B s w s'"
proof -
  have "(ready_inv s \<longrightarrow> ready_inv s') \<and> (is_initialized s \<longrightarrow> is_initialized s') \<and>
    (\<not> is_initialized s \<and> is_initialized s' \<longrightarrow> loaded_and_warmed B s w s')"
  proof (cases c)
    case Initialize
    with assms obtain r where "initialize B s w = (r, s', w')"
      by (cases "initialize B s w") auto
    from initialize_ready [OF this] show ?thesis by blast
  next
    case (Detect img)
    with assms obtain r where "detect B s img w = (r, s', w')"
      by (cases "detect B s img w") auto
    from detect_ready [OF this] show ?thesis by blast
  next
    case (ProcessFrame img)
    with assms obtain r where "process_frame B s img w = (r, s', w')"
      by (cases "process_frame B s img w") auto
    from process_frame_ready [OF this] show ?thesis by blast
  next
    case GetCurrentDetections
    with assms show ?thesis by simp
  next
    case GetMetrics
    with assms show ?thesis by simp
  qed
  then show "ready_inv s \<longrightarrow> ready_inv s'" "is_initialized s \<longrightarrow> is_initialized s'"
    "\<not> is_initialized s \<and> is_initialized s' \<longrightarrow> loaded_and_warmed B s w s'"
    by blast+
qed

lemma run_ready:
  "run B cs (s, w) = (s', w') \<Longrightarrow>
     (ready_inv s \<longrightarrow> ready_inv s') \<and> (is_initialized s \<longrightarrow> is_initialized s')"
proof (induction cs arbitrary: s w)
  case Nil
  then show ?case by simp
next
  case (Cons c cs)
  obtain s1 w1 where e: "exec B c (s, w) = (s1, w1)" by (cases "exec B c (s, w)")
  with Cons.prems have "run B cs (s1, w1) = (s', w')" by simp
  from Cons.IH [OF this] exec_ready(1,2) [OF e] show ?case by blast
qed

text \<open>The example backend at work.\<close>

lemma fresh_service_new:
  "ObjectDetectionService example_backend ''yolo26n-seg.pt'' 0.25 = Inr fresh_service"
  by (simp add: ObjectDetectionService_def example_backend_def fresh_service_def)

lemma example_initialize:
  "initialize example_backend fresh_service 0
     = (Inr (), fresh_service\<lparr>model := Some example_model, is_initialized := True\<rparr>, 2)"
  by (simp add: initialize_def example_backend_def fresh_service_def np_zeros_def)

lemma example_decode:
  "decode example_model [example_result] =
     Inr [[(''box'', PyFloats [10.2, 20.3, 30, 40]), (''label'', PyStr ''person''),
           (''class_id'', PyInt 0), (''conf'', PyFloat 0.87),
           (''mask'', PyPoints [(1, 2), (3, 4), (5, 6)])],
          [(''box'', PyFloats [1, 2, 3, 4]), (''label'', PyStr ''car''),
           (''class_id'', PyInt 2), (''conf'', PyFloat 0.4)]]"
  by (simp add: decode_def decode_box_def example_model_def example_result_def
      py_round_def round_half_even_def Let_def)

lemma example_detect_try_raises:
  "detect_try example_backend (ready_service\<lparr>processing_lock := l\<rparr>) (example_frame 0) 0
     = (Inl (BackendError ''empty frame''), 2)"
  by (simp add: detect_try_def example_backend_def ready_service_def example_frame_def)

lemma example_detect_raises:
  "detect example_backend (ready_service\<lparr>processing_lock := l\<rparr>) (example_frame 0) 0
     = (Inr [], ready_service\<lparr>processing_lock := l\<rparr>, 2)"
  by (simp add: detect_def lazy_initialize_def example_detect_try_raises)
    (simp add: ready_service_def)

lemma example_detect_try:
  "model s = Some example_model \<Longrightarrow>
   detect_try example_backend s (example_frame 2) w
     = (Inr ([[(''box'', PyFloats [10.2, 20.3, 30, 40]), (''label'', PyStr ''person''),
           (''class_id'', PyInt 0), (''conf'', PyFloat 0.87),
           (''mask'', PyPoints [(1, 2), (3, 4), (5, 6)])],
          [(''box'', PyFloats [1, 2, 3, 4]), (''label'', PyStr ''car''),
           (''class_id'', PyInt 2), (''conf'', PyFloat 0.4)]], 4 * real w + 4), w + 3)"
proof -
  assume m: "model s = Some example_model"
  have c: "call example_backend example_model (example_frame 2) (Some (confidence s)) (Suc w)
    = (Inr [example_result], Suc (Suc w))"
    by (simp add: example_backend_def example_frame_def)
  have p: "\<And>v. perf_counter example_backend v = (real (v * v), Suc v)"
    by (simp add: example_backend_def)
  show ?thesis
    by (simp add: detect_try_def m p c example_decode algebra_simps)
qed

text \<open>What a call does to the metrics: it adds the inference that it records, if any.\<close>

lemma detect_caught_empty:
  assumes "detect B s img w = (Inr detections, s', w')" "detect_recorded B s img w = None"
  shows "detections = []"
  using assms
  by (auto simp: detect_def detect_recorded_def split: prod.splits sum.splits)

lemma detect_metrics:
  assumes "detect B s img w = (r, s', w')"
  shows "total_inferences s' =
      total_inferences s + (case detect_recorded B s img w of None \<Rightarrow> 0 | Some t \<Rightarrow> 1)"
    "total_inference_time s' =
      total_inference_time s + (case detect_recorded B s img w of None \<Rightarrow> 0 | Some t \<Rightarrow> t)"
  using assms
  by (cases rule: detect_cases; simp add: detect_recorded_def lazy_initialize_frame)+

lemma exec_metrics:
  assumes "exec B c (s, w) = (s', w')"
  shows "total_inferences s' = total_inferences s + int (length (recorded B c (s, w))) \<and>
    total_inference_time s' = total_inference_time s + sum_list (recorded B c (s, w))"
proof (cases c)
  case Initialize
  with assms obtain r where "initialize B s w = (r, s', w')"
    by (cases "initialize B s w") auto
  from initialize_frame(6,7) [OF this] show ?thesis using Initialize by simp
next
  case (Detect img)
  with assms obtain r where "detect B s img w = (r, s', w')"
    by (cases "detect B s img w") auto
  from detect_metrics [OF this] show ?thesis using Detect
    by (simp split: option.splits)
next
  case (ProcessFrame img)
  with assms obtain r where p: "process_frame B s img w = (r, s', w')"
    by (cases "process_frame B s img w") auto
  then show ?thesis
  proof (cases rule: process_frame_cases)
    case dropped
    then show ?thesis using ProcessFrame by simp
  next
    case (raised e s1)
    from detect_metrics [OF raised(2)] raised(1,4) show ?thesis using ProcessFrame
      by (simp split: option.splits)
  next
    case (stored detections s1)
    from detect_metrics [OF stored(2)] stored(1,4) show ?thesis using ProcessFrame
      by (simp split: option.splits)
  qed
next
  case GetCurrentDetections
  with assms show ?thesis by simp
next
  case GetMetrics
  with assms show ?thesis by simp
qed

lemma run_metrics:
  "run B cs (s, w) = (s', w') \<Longrightarrow>
     total_inferences s' = total_inferences s + int (length (latencies B cs (s, w))) \<and>
     total_inference_time s' = total_inference_time s + sum_list (latencies B cs (s, w))"
proof (induction cs arbitrary: s w)
  case Nil
  then show ?case by simp
next
  case (Cons c cs)
  obtain s1 w1 where e: "exec B c (s, w) = (s1, w1)" by (cases "exec B c (s, w)")
  with Cons.prems have "run B cs (s1, w1) = (s', w')" by simp
  from Cons.IH [OF this] exec_metrics [OF e] e show ?case by simp
qed

text \<open>A sequence of calls on the example backend.\<close>

lemmas example_defs = lazy_initialize_def initialize_def detect_def detect_recorded_def
  detect_try_def process_frame_def example_backend_def example_frame_def np_zeros_def
  fresh_service_def example_decode

lemma example_run_latencies:
  "latencies example_backend
     [Detect (example_frame 2), Detect (example_frame 0), ProcessFrame (example_frame 2)]
     (fresh_service, 0) = [12, 32]"
  by (simp add: example_defs)

lemma example_process_frame_raises:
  "process_frame example_backend ready_service (example_frame 0) 0
     = (Inr (), ready_service\<lparr>current_detections := []\<rparr>, 2)"
  using example_detect_raises [of True]
  by (simp add: process_frame_def) (simp add: ready_service_def)

lemma example_recorded_raises:
  "detect_recorded example_backend (ready_service\<lparr>processing_lock := True\<rparr>) (example_frame 0) 0
     = None"
  by (simp add: detect_recorded_def lazy_initialize_def example_detect_try_raises)
    (simp add: ready_service_def)

text \<open>The detection at an index is the decoding of the box at that index.\<close>

lemma decode_nth:
  assumes d: "decode m (r # rs) = Inr ds" and j: "j < length (boxes r)"
  shows "\<exists>label. map_of (names m) (cls (boxes r ! j)) = Some label \<and>
       ds ! j = [(''box'', PyFloats (map (\<lambda>c. py_round c 1) (xyxy (boxes r ! j)))),
            (''label'', PyStr label),
            (''class_id'', PyInt (cls (boxes r ! j))),
            (''conf'', PyFloat (py_round (conf (boxes r ! j)) 2))]
           @ (case segmentation r j of
                None \<Rightarrow> [] | Some seg \<Rightarrow> [(''mask'', PyPoints seg)])"
proof -
  from d have "decode_boxes m (masks r) 0 (boxes r) = Inr ds"
    by (simp add: decode_def)
  from decode_boxes_nth [OF this] j
  have "decode_box m (masks r) j (boxes r ! j) = Inr (ds ! j)" by simp
  from decode_box_Inr [OF this] show ?thesis by simp
qed

lemma decode_length:
  "decode m (r # rs) = Inr ds \<Longrightarrow> length ds = length (boxes r)"
  using decode_boxes_nth [of m "masks r" 0 "boxes r" ds] by (simp add: decode_def)

lemma segmentation_nonempty: "segmentation r j \<noteq> Some []"
  by (simp add: segmentation_def split: option.splits)

text \<open>
  Rounding is stable near a value that is not a tie: the examples below hold as well for the
  binary floats next to the decimals written in them.
\<close>

lemma round_half_even_unique:
  assumes "of_int k - 1 / 2 < x" "x < of_int k + 1 / 2"
  shows "round_half_even x = k"
proof -
  have "\<lfloor>x\<rfloor> = k \<or> \<lfloor>x\<rfloor> = k - 1" using assms by linarith
  then show ?thesis
  proof
    assume f: "\<lfloor>x\<rfloor> = k"
    then have "x - of_int \<lfloor>x\<rfloor> < 1 / 2" using assms by simp
    then show ?thesis by (simp add: round_half_even_def Let_def f)
  next
    assume f: "\<lfloor>x\<rfloor> = k - 1"
    then have "1 / 2 < x - of_int \<lfloor>x\<rfloor>" using assms by simp
    then show ?thesis by (simp add: round_half_even_def Let_def f)
  qed
qed

lemma py_round_stable:
  assumes "of_int k - 1 / 2 < x * 10 ^ n" "x * 10 ^ n < of_int k + 1 / 2"
  shows "py_round x n = of_int k / 10 ^ n"
  using round_half_even_unique [OF assms] by (simp add: py_round_def)

lemma py_round_examples_stable:
  "10.2485 \<le> x \<Longrightarrow> x \<le> 10.2495 \<Longrightarrow> py_round x 1 = 10.2"
  "20.2505 \<le> x \<Longrightarrow> x \<le> 20.2515 \<Longrightarrow> py_round x 1 = 20.3"
  "29.9995 \<le> x \<Longrightarrow> x \<le> 30.0005 \<Longrightarrow> py_round x 1 = 30"
  "39.9995 \<le> x \<Longrightarrow> x \<le> 40.0005 \<Longrightarrow> py_round x 1 = 40"
  "0.867 \<le> x \<Longrightarrow> x \<le> 0.868 \<Longrightarrow> py_round x 2 = 0.87"
proof -
  show "10.2485 \<le> x \<Longrightarrow> x \<le> 10.2495 \<Longrightarrow> py_round x 1 = 10.2"
    using py_round_stable [of 102 x 1] by simp
  show "20.2505 \<le> x \<Longrightarrow> x \<le> 20.2515 \<Longrightarrow> py_round x 1 = 20.3"
    using py_round_stable [of 203 x 1] by simp
  show "29.9995 \<le> x \<Longrightarrow> x \<le> 30.0005 \<Longrightarrow> py_round x 1 = 30"
    using py_round_stable [of 300 x 1] by simp
  show "39.9995 \<le> x \<Longrightarrow> x \<le> 40.0005 \<Longrightarrow> py_round x 1 = 40"
    using py_round_stable [of 400 x 1] by simp
  show "0.867 \<le> x \<Longrightarrow> x \<le> 0.868 \<Longrightarrow> py_round x 2 = 0.87"
    using py_round_stable [of 87 x 2] by simp
qed

section \<open>Properties\<close>

text \<open>
  C4: in the Ready state (\<open>is_initialized\<close> true) a call of \<open>initialize\<close> returns with
  every field of the service as it was and with the world as it was: no model is constructed
  and no warm-up inference runs.
\<close>

theorem initialize_idempotent:
  "is_initialized s \<Longrightarrow> initialize B s w = (Inr (), s, w)"
  by (simp add: initialize_def)

theorem initialize_idempotent_witness:
  "is_initialized ready_service \<and>
   initialize example_backend ready_service 7 = (Inr (), ready_service, 7)"
  using initialize_idempotent [of ready_service example_backend 7]
  by (simp add: ready_service_def)

text \<open>
  C1: when the lock is held, \<open>process_frame\<close> returns at once. The service comes back with
  every field as it was (the stored detections and the three metrics among them) and the
  world comes back as it was: the backend is not called.
\<close>

theorem process_frame_dropped:
  "processing_lock s \<Longrightarrow> process_frame B s img w = (Inr (), s, w)"
  by (simp add: process_frame_def)

theorem process_frame_dropped_witness:
  "processing_lock (ready_service\<lparr>processing_lock := True\<rparr>) \<and>
   process_frame example_backend (ready_service\<lparr>processing_lock := True\<rparr>) (example_frame 2) 7
     = (Inr (), ready_service\<lparr>processing_lock := True\<rparr>, 7)"
  using process_frame_dropped
    [of "ready_service\<lparr>processing_lock := True\<rparr>" example_backend "example_frame 2" 7]
  by simp

text \<open>
  C2: let initialization have completed (before the call, or in the call's own lazy
  \<open>initialize\<close>) and let the backend call raise, or return results whose decoding raises.
  Then \<open>detect\<close> returns the empty list, and \<open>last_inference_time\<close>, \<open>total_inferences\<close>
  and \<open>total_inference_time\<close> are what they were before the call. On a service that was
  initialized already, no field changes.
\<close>

theorem detect_fail_open:
  assumes init: "lazy_initialize B s w = (Inr (), s0, w0)"
    and clock: "perf_counter B w0 = (t0, w1)"
    and m: "model s0 = Some m"
    and raised: "fst (call B m img (Some (confidence s0)) w1) = Inl e \<or>
       (\<exists>results. fst (call B m img (Some (confidence s0)) w1) = Inr results \<and>
          decode m results = Inl e)"
  shows "detect B s img w = (Inr [], s0, snd (call B m img (Some (confidence s0)) w1)) \<and>
         last_inference_time s0 = last_inference_time s \<and>
         total_inferences s0 = total_inferences s \<and>
         total_inference_time s0 = total_inference_time s \<and>
         (is_initialized s \<longrightarrow> s0 = s)"
proof -
  obtain r w2 where c: "call B m img (Some (confidence s0)) w1 = (r, w2)"
    by (cases "call B m img (Some (confidence s0)) w1")
  from raised c have "detect_try B s0 img w0 = (Inl e, w2)"
    by (auto simp: detect_try_def clock m)
  then have "detect B s img w = (Inr [], s0, w2)"
    by (simp add: detect_def init)
  moreover from init have "last_inference_time s0 = last_inference_time s \<and>
         total_inferences s0 = total_inferences s \<and>
         total_inference_time s0 = total_inference_time s \<and>
         (is_initialized s \<longrightarrow> s0 = s)"
    by (auto simp: lazy_initialize_def initialize_def Let_def split: if_splits prod.splits sum.splits)
  ultimately show ?thesis using c by simp
qed

theorem detect_fail_open_witness:
  "lazy_initialize example_backend ready_service 0 = (Inr (), ready_service, 0) \<and>
   perf_counter example_backend 0 = (0, 1) \<and>
   model ready_service = Some example_model \<and>
   fst (call example_backend example_model (example_frame 1) (Some (confidence ready_service)) 1)
     = Inr [unlabelled_result] \<and>
   decode example_model [unlabelled_result] = Inl KeyError \<and>
   detect example_backend ready_service (example_frame 1) 0 = (Inr [], ready_service, 2) \<and>
   total_inferences ready_service = 1"
proof -
  have i: "lazy_initialize example_backend ready_service 0 = (Inr (), ready_service, 0)"
    by (simp add: lazy_initialize_def ready_service_def)
  have c: "perf_counter example_backend 0 = (0, 1)"
    by (simp add: example_backend_def)
  have m: "model ready_service = Some example_model"
    by (simp add: ready_service_def)
  have b: "call example_backend example_model (example_frame 1) (Some (confidence ready_service)) 1
     = (Inr [unlabelled_result], 2)"
    by (simp add: example_backend_def example_frame_def)
  have d: "decode example_model [unlabelled_result] = Inl KeyError"
    by (simp add: decode_def decode_box_def unlabelled_result_def example_model_def)
  have r: "fst (call example_backend example_model (example_frame 1) (Some (confidence ready_service)) 1)
       = Inl KeyError \<or>
     (\<exists>results. fst (call example_backend example_model (example_frame 1)
          (Some (confidence ready_service)) 1) = Inr results \<and>
        decode example_model results = Inl KeyError)"
    using b d by simp
  from detect_fail_open [OF i c m r] b i c m d show ?thesis
    by (simp add: ready_service_def)
qed

text \<open>
  C9: when the service is not initialized and \<open>initialize\<close> raises, \<open>detect\<close> raises the
  same exception, with the service and the world as \<open>initialize\<close> left them, and returns no
  list. That is the only way \<open>detect\<close> raises: after the initialization step every exception
  is caught.
\<close>

theorem detect_raises_initialization_error:
  "(\<not> is_initialized s \<and> fst (initialize B s w) = Inl e \<longrightarrow>
      detect B s img w = (Inl e, snd (initialize B s w))) \<and>
   (fst (detect B s img w) = Inl e \<longrightarrow>
      \<not> is_initialized s \<and> fst (initialize B s w) = Inl e)"
  by (auto simp: detect_def lazy_initialize_def split: prod.splits sum.splits if_splits)

theorem detect_raises_initialization_error_witness:
  "\<not> is_initialized (ready_service\<lparr>is_initialized := False, model_path := []\<rparr>) \<and>
   fst (initialize example_backend (ready_service\<lparr>is_initialized := False, model_path := []\<rparr>) 0)
     = Inl (BackendError ''no such model'') \<and>
   fst (detect example_backend (ready_service\<lparr>is_initialized := False, model_path := []\<rparr>)
          (example_frame 2) 0) = Inl (BackendError ''no such model'')"
proof -
  let ?s = "ready_service\<lparr>is_initialized := False, model_path := []\<rparr>"
  have a: "\<not> is_initialized ?s" by simp
  have b: "fst (initialize example_backend ?s 0) = Inl (BackendError ''no such model'')"
    by (simp add: initialize_def example_backend_def)
  from detect_raises_initialization_error
    [of ?s example_backend 0 "BackendError ''no such model''" "example_frame 2"] a b
  show ?thesis by simp
qed

text \<open>
  C7: the constructor raises \<open>ImportError\<close> when the backend is not available, so that no
  service exists on which \<open>initialize\<close> or \<open>detect\<close> could be called; it returns a service
  when the backend is available.
\<close>

theorem construction_checks_backend:
  "(\<not> YOLO_AVAILABLE B \<longrightarrow> ObjectDetectionService B path c = Inl ImportError) \<and>
   (YOLO_AVAILABLE B \<longrightarrow> (\<exists>s. ObjectDetectionService B path c = Inr s))"
  by (simp add: ObjectDetectionService_def)

theorem construction_checks_backend_witness:
  "\<not> YOLO_AVAILABLE missing_backend \<and>
   ObjectDetectionService missing_backend ''yolo26n-seg.pt'' 0.25 = Inl ImportError \<and>
   YOLO_AVAILABLE example_backend \<and>
   (\<exists>s. ObjectDetectionService example_backend ''yolo26n-seg.pt'' 0.25 = Inr s)"
  using construction_checks_backend [of missing_backend "''yolo26n-seg.pt''" "0.25"]
    construction_checks_backend [of example_backend "''yolo26n-seg.pt''" "0.25"]
  by (simp add: missing_backend_def example_backend_def)

text \<open>
  C10: a new service is not initialized. Every call keeps the invariant that an initialized
  service holds a model, and keeps an initialized service initialized; a call that turns
  \<open>is_initialized\<close> from false to true has constructed the model and run the warm-up
  inference, neither of which raised, and the service holds that model. So after every
  sequence of calls on a new service the invariant holds.
\<close>

theorem readiness_invariant:
  "(ObjectDetectionService B path c = Inr s0 \<longrightarrow>
      \<not> is_initialized s0 \<and> ready_inv (fst (run B cs (s0, w0)))) \<and>
   (exec B opn (s, w) = (s', w') \<longrightarrow>
      (ready_inv s \<longrightarrow> ready_inv s') \<and>
      (is_initialized s \<longrightarrow> is_initialized s') \<and>
      (\<not> is_initialized s \<and> is_initialized s' \<longrightarrow> loaded_and_warmed B s w s'))"
proof (intro conjI impI)
  assume a: "ObjectDetectionService B path c = Inr s0"
  then show n: "\<not> is_initialized s0"
    by (auto simp: ObjectDetectionService_def split: if_splits)
  then have "ready_inv s0" by (simp add: ready_inv_def)
  moreover have "run B cs (s0, w0) = (fst (run B cs (s0, w0)), snd (run B cs (s0, w0)))"
    by simp
  from run_ready [OF this] have "ready_inv s0 \<longrightarrow> ready_inv (fst (run B cs (s0, w0)))"
    by blast
  ultimately show "ready_inv (fst (run B cs (s0, w0)))"
    by blast
next
  assume e: "exec B opn (s, w) = (s', w')"
  { assume "ready_inv s" then show "ready_inv s'" using exec_ready(1) [OF e] by blast }
  { assume "is_initialized s" then show "is_initialized s'" using exec_ready(2) [OF e] by blast }
  { assume "\<not> is_initialized s \<and> is_initialized s'"
    then show "loaded_and_warmed B s w s'" using exec_ready(3) [OF e] by blast }
qed

theorem readiness_invariant_witness:
  "ObjectDetectionService example_backend ''yolo26n-seg.pt'' 0.25 = Inr fresh_service \<and>
   \<not> is_initialized fresh_service \<and>
   ready_inv (fst (run example_backend [Initialize, Detect (example_frame 0)] (fresh_service, 0))) \<and>
   exec example_backend Initialize (fresh_service, 0)
     = (fresh_service\<lparr>model := Some example_model, is_initialized := True\<rparr>, 2) \<and>
   ready_inv fresh_service \<and>
   ready_inv (fresh_service\<lparr>model := Some example_model, is_initialized := True\<rparr>) \<and>
   is_initialized (fresh_service\<lparr>model := Some example_model, is_initialized := True\<rparr>) \<and>
   loaded_and_warmed example_backend fresh_service 0
     (fresh_service\<lparr>model := Some example_model, is_initialized := True\<rparr>) \<and>
   exec example_backend (Detect (example_frame 0)) (ready_service, 0) = (ready_service, 2) \<and>
   is_initialized ready_service"
proof -
  let ?s1 = "fresh_service\<lparr>model := Some example_model, is_initialized := True\<rparr>"
  have e1: "exec example_backend Initialize (fresh_service, 0) = (?s1, 2)"
    by (simp add: example_initialize)
  have e2: "exec example_backend (Detect (example_frame 0)) (ready_service, 0) = (ready_service, 2)"
    using example_detect_raises [of False] by (simp add: ready_service_def)
  have n: "\<not> is_initialized fresh_service" by (simp add: fresh_service_def)
  have i: "is_initialized ready_service" by (simp add: ready_service_def)
  have r: "ready_inv fresh_service" by (simp add: ready_inv_def fresh_service_def)
  from readiness_invariant [where B = example_backend and path = "''yolo26n-seg.pt''"
      and c = "0.25" and ?s0.0 = fresh_service and ?w0.0 = 0
      and cs = "[Initialize, Detect (example_frame 0)]"
      and opn = Initialize and s = fresh_service and w = 0 and s' = ?s1 and w' = 2]
    readiness_invariant [where B = example_backend and path = "''yolo26n-seg.pt''"
      and c = "0.25" and ?s0.0 = fresh_service and ?w0.0 = 0 and cs = "[]"
      and opn = "Detect (example_frame 0)" and s = ready_service and w = 0
      and s' = ready_service and w' = 2]
    fresh_service_new e1 e2 n i r
  show ?thesis by simp
qed

text \<open>
  C3: on a new service, after any sequence of calls the snapshot's \<open>total_detections\<close> is
  the number \<open>N\<close> of inferences that were recorded in the sequence, and \<open>avg_latency_ms\<close> is
  the sum of their recorded times divided by \<open>N\<close>, times 1000, and is 0 when \<open>N\<close> is 0.
  From any state, no sequence of calls makes \<open>total_inferences\<close> smaller. (With floats as
  reals the average is exact.)
\<close>

theorem metrics_after_run:
  "(ObjectDetectionService B path c = Inr s0 \<longrightarrow>
      map_of (get_metrics (fst (run B cs (s0, w0)))) ''total_detections''
        = Some (PyInt (int (length (latencies B cs (s0, w0))))) \<and>
      map_of (get_metrics (fst (run B cs (s0, w0)))) ''avg_latency_ms''
        = Some (PyFloat (if length (latencies B cs (s0, w0)) = 0 then 0
             else sum_list (latencies B cs (s0, w0))
                    / real (length (latencies B cs (s0, w0))) * 1000))) \<and>
   total_inferences s \<le> total_inferences (fst (run B cs (s, w)))"
proof (intro conjI impI)
  assume a: "ObjectDetectionService B path c = Inr s0"
  then have z: "total_inferences s0 = 0" "total_inference_time s0 = 0"
    by (auto simp: ObjectDetectionService_def split: if_splits)
  have "run B cs (s0, w0) = (fst (run B cs (s0, w0)), snd (run B cs (s0, w0)))" by simp
  from run_metrics [OF this] z
  have n: "total_inferences (fst (run B cs (s0, w0))) = int (length (latencies B cs (s0, w0)))"
    and t: "total_inference_time (fst (run B cs (s0, w0))) = sum_list (latencies B cs (s0, w0))"
    by simp_all
  show "map_of (get_metrics (fst (run B cs (s0, w0)))) ''total_detections''
        = Some (PyInt (int (length (latencies B cs (s0, w0)))))"
    by (simp add: get_metrics_def n)
  show "map_of (get_metrics (fst (run B cs (s0, w0)))) ''avg_latency_ms''
        = Some (PyFloat (if length (latencies B cs (s0, w0)) = 0 then 0
             else sum_list (latencies B cs (s0, w0))
                    / real (length (latencies B cs (s0, w0))) * 1000))"
    by (simp add: get_metrics_def n t)
next
  have "run B cs (s, w) = (fst (run B cs (s, w)), snd (run B cs (s, w)))" by simp
  from run_metrics [OF this] show "total_inferences s \<le> total_inferences (fst (run B cs (s, w)))"
    by simp
qed

theorem metrics_after_run_witness:
  "ObjectDetectionService example_backend ''yolo26n-seg.pt'' 0.25 = Inr fresh_service \<and>
   latencies example_backend
     [Detect (example_frame 2), Detect (example_frame 0), ProcessFrame (example_frame 2)]
     (fresh_service, 0) = [12, 32] \<and>
   map_of (get_metrics (fst (run example_backend
     [Detect (example_frame 2), Detect (example_frame 0), ProcessFrame (example_frame 2)]
     (fresh_service, 0)))) ''total_detections'' = Some (PyInt 2) \<and>
   map_of (get_metrics (fst (run example_backend
     [Detect (example_frame 2), Detect (example_frame 0), ProcessFrame (example_frame 2)]
     (fresh_service, 0)))) ''avg_latency_ms'' = Some (PyFloat 22000)"
  using metrics_after_run [where B = example_backend and path = "''yolo26n-seg.pt''"
      and c = "0.25" and ?s0.0 = fresh_service and ?w0.0 = 0
      and cs = "[Detect (example_frame 2), Detect (example_frame 0), ProcessFrame (example_frame 2)]"]
    fresh_service_new
  by (simp del: run.simps latencies.simps add: example_run_latencies)

text \<open>
  C6, as stated, fails: on a service that stores one detection, a frame on which the backend
  raises makes \<open>process_frame\<close> store the empty list that \<open>detect\<close> returns for it.
\<close>

theorem failed_inference_overwrites_counterexample:
  "\<not> processing_lock ready_service \<and>
   fst (call example_backend example_model (example_frame 0) (Some (confidence ready_service)) 1)
     = Inl (BackendError ''empty frame'') \<and>
   detect_recorded example_backend (ready_service\<lparr>processing_lock := True\<rparr>) (example_frame 0) 0
     = None \<and>
   current_detections ready_service = [example_detection] \<and>
   current_detections (fst (snd (process_frame example_backend ready_service (example_frame 0) 0)))
     = [] \<and>
   current_detections (fst (snd (process_frame example_backend ready_service (example_frame 0) 0)))
     \<noteq> current_detections ready_service"
  by (simp add: example_process_frame_raises example_recorded_raises)
    (simp add: ready_service_def example_backend_def example_frame_def)

text \<open>
  C6, amended: a call of \<open>process_frame\<close> that is dropped leaves the stored detections
  unchanged, and so does one in which \<open>detect\<close> raises (the lazy initialization failed).
  Every other call of \<open>process_frame\<close> stores what \<open>detect\<close> returned: the new batch when
  the inference was recorded, and the empty list when it failed. \<open>detect\<close> and
  \<open>initialize\<close> called on their own leave the stored detections unchanged.
\<close>

theorem current_detections_lifecycle:
  "(processing_lock s \<longrightarrow>
      current_detections (fst (snd (process_frame B s img w))) = current_detections s) \<and>
   (\<not> processing_lock s \<and> fst (detect B (s\<lparr>processing_lock := True\<rparr>) img w) = Inl e \<longrightarrow>
      current_detections (fst (snd (process_frame B s img w))) = current_detections s) \<and>
   (\<not> processing_lock s \<and> fst (detect B (s\<lparr>processing_lock := True\<rparr>) img w) = Inr ds \<longrightarrow>
      current_detections (fst (snd (process_frame B s img w))) = ds \<and>
      (detect_recorded B (s\<lparr>processing_lock := True\<rparr>) img w = None \<longrightarrow> ds = [])) \<and>
   current_detections (fst (snd (detect B s img w))) = current_detections s \<and>
   current_detections (fst (snd (initialize B s w))) = current_detections s"
proof (intro conjI impI)
  assume "processing_lock s"
  then show "current_detections (fst (snd (process_frame B s img w))) = current_detections s"
    by (simp add: process_frame_def)
next
  assume a: "\<not> processing_lock s \<and> fst (detect B (s\<lparr>processing_lock := True\<rparr>) img w) = Inl e"
  obtain r s1 w1 where d: "detect B (s\<lparr>processing_lock := True\<rparr>) img w = (r, s1, w1)"
    by (cases "detect B (s\<lparr>processing_lock := True\<rparr>) img w")
  from detect_frame(3) [OF d] a d
  show "current_detections (fst (snd (process_frame B s img w))) = current_detections s"
    by (simp add: process_frame_def)
next
  assume a: "\<not> processing_lock s \<and> fst (detect B (s\<lparr>processing_lock := True\<rparr>) img w) = Inr ds"
  obtain r s1 w1 where d: "detect B (s\<lparr>processing_lock := True\<rparr>) img w = (r, s1, w1)"
    by (cases "detect B (s\<lparr>processing_lock := True\<rparr>) img w")
  from a d show "current_detections (fst (snd (process_frame B s img w))) = ds"
    by (simp add: process_frame_def)
  assume "detect_recorded B (s\<lparr>processing_lock := True\<rparr>) img w = None"
  with a d detect_caught_empty [of B "s\<lparr>processing_lock := True\<rparr>" img w ds s1 w1]
  show "ds = []" by simp
next
  obtain r s1 w1 where d: "detect B s img w = (r, s1, w1)"
    by (cases "detect B s img w")
  from detect_frame(3) [OF d] d
  show "current_detections (fst (snd (detect B s img w))) = current_detections s" by simp
next
  obtain r s1 w1 where d: "initialize B s w = (r, s1, w1)"
    by (cases "initialize B s w")
  from initialize_frame(3) [OF d] d
  show "current_detections (fst (snd (initialize B s w))) = current_detections s" by simp
qed

theorem current_detections_lifecycle_witness:
  "processing_lock (ready_service\<lparr>processing_lock := True\<rparr>) \<and>
   current_detections (fst (snd (process_frame example_backend
       (ready_service\<lparr>processing_lock := True\<rparr>) (example_frame 2) 0))) = [example_detection] \<and>
   \<not> processing_lock (ready_service\<lparr>is_initialized := False, model_path := []\<rparr>) \<and>
   fst (detect example_backend
       (ready_service\<lparr>is_initialized := False, model_path := [], processing_lock := True\<rparr>)
       (example_frame 2) 0) = Inl (BackendError ''no such model'') \<and>
   current_detections (fst (snd (process_frame example_backend
       (ready_service\<lparr>is_initialized := False, model_path := []\<rparr>) (example_frame 2) 0)))
     = [example_detection] \<and>
   \<not> processing_lock ready_service \<and>
   fst (detect example_backend (ready_service\<lparr>processing_lock := True\<rparr>) (example_frame 0) 0)
     = Inr [] \<and>
   detect_recorded example_backend (ready_service\<lparr>processing_lock := True\<rparr>) (example_frame 0) 0
     = None \<and>
   current_detections (fst (snd (process_frame example_backend ready_service (example_frame 0) 0)))
     = []"
proof -
  let ?bad = "ready_service\<lparr>is_initialized := False, model_path := []\<rparr>"
  have l: "processing_lock (ready_service\<lparr>processing_lock := True\<rparr>)" by simp
  have u: "\<not> processing_lock ?bad" "\<not> processing_lock ready_service"
    "current_detections ready_service = [example_detection]"
    by (simp_all add: ready_service_def)
  have b: "fst (detect example_backend (?bad\<lparr>processing_lock := True\<rparr>) (example_frame 2) 0)
     = Inl (BackendError ''no such model'')"
    by (simp add: detect_def lazy_initialize_def initialize_def example_backend_def)
  have d: "fst (detect example_backend (ready_service\<lparr>processing_lock := True\<rparr>) (example_frame 0) 0)
     = Inr []"
    by (simp add: example_detect_raises)
  from current_detections_lifecycle [where B = example_backend
      and s = "ready_service\<lparr>processing_lock := True\<rparr>" and img = "example_frame 2" and w = 0]
    current_detections_lifecycle [where B = example_backend and s = ?bad
      and img = "example_frame 2" and w = 0 and e = "BackendError ''no such model''"]
    current_detections_lifecycle [where B = example_backend and s = ready_service
      and img = "example_frame 0" and w = 0 and ds = "[]"]
    l u b d example_recorded_raises
  show ?thesis by simp
qed

text \<open>
  C8: when decoding returns, there is one detection for each box of the backend's result, at
  the same index. Its keys are \<open>box\<close>, \<open>label\<close>, \<open>class_id\<close> and \<open>conf\<close>, followed by
  \<open>mask\<close> exactly when the backend provides a non-empty segmentation for that object; the
  mask is then the list of the points of that segmentation, and without segmentation the key
  is not there. The other values are those of the box at that index.
\<close>

theorem decode_schema:
  assumes "decode m (r # rs) = Inr ds"
  shows "length ds = length (boxes r) \<and>
    (\<forall>j<length (boxes r).
       map fst (ds ! j) = [''box'', ''label'', ''class_id'', ''conf'']
          @ (if segmentation r j = None then [] else [''mask'']) \<and>
       map_of (ds ! j) ''mask'' = map_option PyPoints (segmentation r j) \<and>
       map_of (ds ! j) ''mask'' \<noteq> Some (PyPoints []) \<and>
       map_of (ds ! j) ''box'' = Some (PyFloats (map (\<lambda>c. py_round c 1) (xyxy (boxes r ! j)))) \<and>
       map_of (ds ! j) ''label'' = map_option PyStr (map_of (names m) (cls (boxes r ! j))) \<and>
       map_of (ds ! j) ''class_id'' = Some (PyInt (cls (boxes r ! j))) \<and>
       map_of (ds ! j) ''conf'' = Some (PyFloat (py_round (conf (boxes r ! j)) 2)))"
proof (intro conjI allI impI)
  show "length ds = length (boxes r)" using assms by (rule decode_length)
next
  fix j assume j: "j < length (boxes r)"
  from decode_nth [OF assms j] obtain label where
    l: "map_of (names m) (cls (boxes r ! j)) = Some label" and
    d: "ds ! j = [(''box'', PyFloats (map (\<lambda>c. py_round c 1) (xyxy (boxes r ! j)))),
            (''label'', PyStr label),
            (''class_id'', PyInt (cls (boxes r ! j))),
            (''conf'', PyFloat (py_round (conf (boxes r ! j)) 2))]
           @ (case segmentation r j of
                None \<Rightarrow> [] | Some seg \<Rightarrow> [(''mask'', PyPoints seg)])"
    by blast
  show "map fst (ds ! j) = [''box'', ''label'', ''class_id'', ''conf'']
          @ (if segmentation r j = None then [] else [''mask''])"
    by (simp add: d split: option.splits)
  show "map_of (ds ! j) ''mask'' = map_option PyPoints (segmentation r j)"
    by (simp add: d split: option.splits)
  show "map_of (ds ! j) ''mask'' \<noteq> Some (PyPoints [])"
    using segmentation_nonempty [of r j] by (simp add: d split: option.splits)
  show "map_of (ds ! j) ''box'' = Some (PyFloats (map (\<lambda>c. py_round c 1) (xyxy (boxes r ! j))))"
    by (simp add: d)
  show "map_of (ds ! j) ''label'' = map_option PyStr (map_of (names m) (cls (boxes r ! j)))"
    by (simp add: d l)
  show "map_of (ds ! j) ''class_id'' = Some (PyInt (cls (boxes r ! j)))"
    by (simp add: d)
  show "map_of (ds ! j) ''conf'' = Some (PyFloat (py_round (conf (boxes r ! j)) 2))"
    by (simp add: d)
qed

theorem decode_schema_witness:
  "decode example_model [example_result] =
     Inr [[(''box'', PyFloats [10.2, 20.3, 30, 40]), (''label'', PyStr ''person''),
           (''class_id'', PyInt 0), (''conf'', PyFloat 0.87),
           (''mask'', PyPoints [(1, 2), (3, 4), (5, 6)])],
          [(''box'', PyFloats [1, 2, 3, 4]), (''label'', PyStr ''car''),
           (''class_id'', PyInt 2), (''conf'', PyFloat 0.4)]] \<and>
   length (boxes example_result) = 2 \<and>
   segmentation example_result 0 = Some [(1, 2), (3, 4), (5, 6)] \<and>
   segmentation example_result 1 = None \<and>
   map fst ([(''box'', PyFloats [10.2, 20.3, 30, 40]), (''label'', PyStr ''person''),
           (''class_id'', PyInt 0), (''conf'', PyFloat 0.87),
           (''mask'', PyPoints [(1, 2), (3, 4), (5, 6)])])
     = [''box'', ''label'', ''class_id'', ''conf'', ''mask''] \<and>
   map fst ([(''box'', PyFloats [1, 2, 3, 4]), (''label'', PyStr ''car''),
           (''class_id'', PyInt 2), (''conf'', PyFloat 0.4)])
     = [''box'', ''label'', ''class_id'', ''conf'']"
proof -
  have s: "segmentation example_result 0 = Some [(1, 2), (3, 4), (5, 6)]"
    "segmentation example_result 1 = None" "length (boxes example_result) = 2"
    by (simp_all add: segmentation_def example_result_def)
  from decode_schema [OF example_decode] s example_decode
  show ?thesis by simp
qed

text \<open>
  C5: when decoding returns, every coordinate of a detection's \<open>box\<close> is the backend's
  coordinate at that position rounded to 1 decimal, and its \<open>conf\<close> is the backend's
  confidence rounded to 2 decimals. A box with coordinates 10.249, 20.251, 30.0, 40.0 and
  confidence 0.8675 is decoded to the box 10.2, 20.3, 30.0, 40.0 with confidence 0.87.
\<close>

theorem decode_rounding:
  "(decode m (r # rs) = Inr ds \<longrightarrow>
      (\<forall>j<length (boxes r). \<exists>bx cf.
          map_of (ds ! j) ''box'' = Some (PyFloats bx) \<and>
          length bx = length (xyxy (boxes r ! j)) \<and>
          (\<forall>k<length bx. bx ! k = py_round (xyxy (boxes r ! j) ! k) 1 \<and>
             rounded_to 1 (xyxy (boxes r ! j) ! k) (bx ! k)) \<and>
          map_of (ds ! j) ''conf'' = Some (PyFloat cf) \<and>
          cf = py_round (conf (boxes r ! j)) 2 \<and>
          rounded_to 2 (conf (boxes r ! j)) cf)) \<and>
   (xyxy b = [10.249, 20.251, 30.0, 40.0] \<and> conf b = 0.8675 \<and> decode_box m mks i b = Inr d \<longrightarrow>
      map_of d ''box'' = Some (PyFloats [10.2, 20.3, 30.0, 40.0]) \<and>
      map_of d ''conf'' = Some (PyFloat 0.87))"
proof (intro conjI impI allI)
  fix j assume d: "decode m (r # rs) = Inr ds" and j: "j < length (boxes r)"
  from decode_nth [OF d j] have
    "map_of (ds ! j) ''box'' = Some (PyFloats (map (\<lambda>c. py_round c 1) (xyxy (boxes r ! j))))"
    "map_of (ds ! j) ''conf'' = Some (PyFloat (py_round (conf (boxes r ! j)) 2))"
    by auto
  then show "\<exists>bx cf.
          map_of (ds ! j) ''box'' = Some (PyFloats bx) \<and>
          length bx = length (xyxy (boxes r ! j)) \<and>
          (\<forall>k<length bx. bx ! k = py_round (xyxy (boxes r ! j) ! k) 1 \<and>
             rounded_to 1 (xyxy (boxes r ! j) ! k) (bx ! k)) \<and>
          map_of (ds ! j) ''conf'' = Some (PyFloat cf) \<and>
          cf = py_round (conf (boxes r ! j)) 2 \<and>
          rounded_to 2 (conf (boxes r ! j)) cf"
    by (simp add: py_round_rounded_to)
next
  assume a: "xyxy b = [10.249, 20.251, 30.0, 40.0] \<and> conf b = 0.8675 \<and> decode_box m mks i b = Inr d"
  have p: "py_round 10.249 1 = 10.2" "py_round 20.251 1 = 20.3" "py_round 30 1 = 30"
    "py_round 40 1 = 40" "py_round 0.8675 2 = 0.87"
    by (simp_all add: py_round_def round_half_even_def Let_def)
  from a have "decode_box m (masks \<lparr>boxes = [], masks = mks\<rparr>) i b = Inr d" by simp
  from decode_box_Inr [OF this] a p
  show "map_of d ''box'' = Some (PyFloats [10.2, 20.3, 30.0, 40.0])"
    and "map_of d ''conf'' = Some (PyFloat 0.87)"
    by auto
qed

theorem decode_rounding_witness:
  "decode example_model [example_result] =
     Inr [[(''box'', PyFloats [10.2, 20.3, 30, 40]), (''label'', PyStr ''person''),
           (''class_id'', PyInt 0), (''conf'', PyFloat 0.87),
           (''mask'', PyPoints [(1, 2), (3, 4), (5, 6)])],
          [(''box'', PyFloats [1, 2, 3, 4]), (''label'', PyStr ''car''),
           (''class_id'', PyInt 2), (''conf'', PyFloat 0.4)]] \<and>
   boxes example_result ! 0 = \<lparr>xyxy = [10.249, 20.251, 30.0, 40.0], conf = 0.8675, cls = 0\<rparr> \<and>
   rounded_to 1 10.249 10.2 \<and> rounded_to 1 20.251 20.3 \<and>
   rounded_to 1 30 30 \<and> rounded_to 1 40 40 \<and> rounded_to 2 0.8675 0.87 \<and>
   decode_box example_model None 0 \<lparr>xyxy = [10.249, 20.251, 30.0, 40.0], conf = 0.8675, cls = 0\<rparr>
     = Inr [(''box'', PyFloats [10.2, 20.3, 30, 40]), (''label'', PyStr ''person''),
            (''class_id'', PyInt 0), (''conf'', PyFloat 0.87)]"
proof -
  let ?b = "\<lparr>xyxy = [10.249, 20.251, 30.0, 40.0], conf = 0.8675, cls = 0\<rparr>"
  let ?d = "[(''box'', PyFloats [10.2, 20.3, 30, 40]), (''label'', PyStr ''person''),
            (''class_id'', PyInt 0), (''conf'', PyFloat 0.87)]"
  let ?ds = "[[(''box'', PyFloats [10.2, 20.3, 30, 40]), (''label'', PyStr ''person''),
           (''class_id'', PyInt 0), (''conf'', PyFloat 0.87),
           (''mask'', PyPoints [(1, 2), (3, 4), (5, 6)])],
          [(''box'', PyFloats [1, 2, 3, 4]), (''label'', PyStr ''car''),
           (''class_id'', PyInt 2), (''conf'', PyFloat 0.4)]]"
  have b: "boxes example_result ! 0 = ?b"
    by (simp add: example_result_def)
  have l: "0 < length (boxes example_result)"
    by (simp add: example_result_def)
  have d: "decode_box example_model None 0 ?b = Inr ?d"
    by (simp add: decode_box_def example_model_def py_round_def round_half_even_def Let_def)
  note t = decode_rounding [where m = example_model and r = example_result and rs = "[]"
      and ds = ?ds and b = ?b and mks = None and i = 0 and d = ?d]
  from t example_decode l obtain bx cf where
    x: "map_of (?ds ! 0) ''box'' = Some (PyFloats bx)"
    and k: "\<forall>k<length bx. bx ! k = py_round (xyxy (boxes example_result ! 0) ! k) 1 \<and>
             rounded_to 1 (xyxy (boxes example_result ! 0) ! k) (bx ! k)"
    and c: "map_of (?ds ! 0) ''conf'' = Some (PyFloat cf)"
      "rounded_to 2 (conf (boxes example_result ! 0)) cf"
    by blast
  from x have bx: "bx = [10.2, 20.3, 30, 40]" by simp
  from c(1) have cf: "cf = 0.87" by simp
  have len: "length bx = 4" by (simp add: bx)
  have k': "\<And>k. k < 4 \<Longrightarrow> rounded_to 1 (xyxy (boxes example_result ! 0) ! k) (bx ! k)"
    using k unfolding len by blast
  from k' [of 0] k' [of 1] k' [of 2] k' [of 3]
  have r: "rounded_to 1 10.249 10.2" "rounded_to 1 20.251 20.3" "rounded_to 1 30 30"
    "rounded_to 1 40 40"
    unfolding b bx by simp_all
  from c(2) have "rounded_to 2 0.8675 0.87" unfolding b cf by simp
  with r b d example_decode show ?thesis by simp
qed

end
